theory Spec2Isabelle
  imports Main "HOL-Library.Word" "HOL-Library.Signed_Division"
begin

section \<open>The epoll stressor of stress-ng (stress-epoll.c)\<close>

text \<open>
  The stressor forks \<open>max_servers\<close> server processes, each running an epoll event loop on a
  listening socket, and runs a connect/send/close client loop in the calling process.
  The embedding follows the C source function by function.  System calls are answered by
  a script supplied as an argument (one record per pass of a loop), every call the code
  makes is appended to a trace, and every \<open>return\<close> and \<open>exit\<close> of the source is a
  branch of the model.  A script that ends before the code returns yields \<open>None\<close>.
\<close>

subsection \<open>Integer types and constants\<close>

text \<open>
  \<open>int\<close> variables of the source whose values stay far from the 32-bit limits (return
  values, error numbers, \<open>retries\<close>, \<open>port_counter\<close>, \<open>max_servers\<close>) are HOL integers.
  The stress instance is a \<open>uint32_t\<close> and the operation counter a \<open>uint64_t\<close>; both are
  words, and so is the port, whose expression mixes \<open>int\<close> and \<open>uint32_t\<close> and is
  therefore evaluated modulo \<open>2 ^ 32\<close> in C.
\<close>

type_synonym u32 = "32 word"
type_synonym u64 = "64 word"
type_synonym u8 = "8 word"

text \<open>Values of the Linux system headers (the file is compiled on Linux only).\<close>

definition AF_UNIX :: int where "AF_UNIX = 1"
definition AF_INET :: int where "AF_INET = 2"
definition AF_INET6 :: int where "AF_INET6 = 10"

definition ENOENT :: int where "ENOENT = 2"
definition EINTR :: int where "EINTR = 4"
definition EAGAIN :: int where "EAGAIN = 11"
definition EWOULDBLOCK :: int where "EWOULDBLOCK = 11"
definition ENFILE :: int where "ENFILE = 23"
definition EMFILE :: int where "EMFILE = 24"
definition ECONNREFUSED :: int where "ECONNREFUSED = 111"

definition EXIT_SUCCESS :: int where "EXIT_SUCCESS = 0"

definition SIGRTMIN :: int where "SIGRTMIN = 34"
definition SIGKILL :: int where "SIGKILL = 9"

definition MAX_EPOLL_EVENTS :: nat where "MAX_EPOLL_EVENTS = 1024"
definition MAX_SERVERS :: nat where "MAX_SERVERS = 4"

subsection \<open>Static state and the domain table\<close>

text \<open>The file's static variables \<open>opt_epoll_domain\<close>, \<open>opt_epoll_port\<close>, \<open>max_servers\<close>.\<close>

record globals =
  opt_epoll_domain :: int
  opt_epoll_port :: int
  max_servers :: int

text \<open>
  The initial values of the statics; \<open>DEFAULT_EPOLL_PORT\<close> comes from stress-ng.h and is
  a parameter here.
\<close>

definition initial_globals :: "int \<Rightarrow> globals" where
  "initial_globals DEFAULT_EPOLL_PORT =
     \<lparr>opt_epoll_domain = AF_UNIX, opt_epoll_port = DEFAULT_EPOLL_PORT, max_servers = 1\<rparr>"

record domain_t =
  d_name :: string
  d_domain :: int
  d_max_servers :: int

text \<open>The table \<open>domains[]\<close> up to its NULL terminator.\<close>

definition domains :: "domain_t list" where
  "domains =
     [\<lparr>d_name = ''ipv4'', d_domain = AF_INET, d_max_servers = 4\<rparr>,
      \<lparr>d_name = ''ipv6'', d_domain = AF_INET6, d_max_servers = 4\<rparr>,
      \<lparr>d_name = ''unix'', d_domain = AF_UNIX, d_max_servers = 1\<rparr>]"

text \<open>
  \<open>stress_set_epoll_domain\<close>: the first loop returns 0 at the first entry whose name
  equals the argument, after storing its domain and server count; when it runs off the
  table, the second loop prints the names to stderr and the function returns \<open>-1\<close>.
  The result is the return value, the statics and the text written to stderr.
\<close>

fun set_domain_scan :: "domain_t list \<Rightarrow> string \<Rightarrow> globals \<Rightarrow> (int \<times> globals) option" where
  "set_domain_scan [] nm g = None"
| "set_domain_scan (d # ds) nm g =
     (if nm = d_name d
      then Some (0, g\<lparr>opt_epoll_domain := d_domain d, max_servers := d_max_servers d\<rparr>)
      else set_domain_scan ds nm g)"

definition domain_usage :: "domain_t list \<Rightarrow> string list" where
  "domain_usage ds =
     [''socket domain must be one of:''] @ map (\<lambda>d. '' '' @ d_name d) ds @ [[CHR 0x0A]]"

definition stress_set_epoll_domain :: "string \<Rightarrow> globals \<Rightarrow> int \<times> globals \<times> string list" where
  "stress_set_epoll_domain nm g =
     (case set_domain_scan domains nm g of
        Some (r, g') \<Rightarrow> (r, g', [])
      | None \<Rightarrow> (-1, g, domain_usage domains))"

subsection \<open>Ports\<close>

text \<open>
  Both engines evaluate \<open>opt_epoll_port + k + (max_servers * instance)\<close> into an \<open>int\<close>,
  where \<open>k\<close> is an \<open>int\<close> and \<open>instance\<close> a \<open>uint32_t\<close>: the product is taken in
  \<open>unsigned int\<close>, the outer sum as well, and the result is converted back to \<open>int\<close>.
  \<open>client_port\<close> is line 315 of the client (with \<open>k = port_counter\<close>), \<open>server_port\<close>
  line 461 of the server (with \<open>k = child\<close>).
\<close>

definition client_port :: "globals \<Rightarrow> int \<Rightarrow> u32 \<Rightarrow> u32" where
  "client_port g port_counter instance =
     word_of_int (opt_epoll_port g + port_counter) + (word_of_int (max_servers g) * instance)"


text \<open>The round-robin step of line 318; C's \<open>%\<close> truncates towards zero.\<close>

definition next_port_counter :: "globals \<Rightarrow> int \<Rightarrow> int" where
  "next_port_counter g port_counter = (port_counter + 1) smod max_servers g"

subsection \<open>The trace of calls\<close>

text \<open>
  \<open>htons\<close> takes a \<open>uint16_t\<close>, so the \<open>int\<close> port is cut to its low 16 bits; the byte
  swap is a matter of representation and is not modelled.
\<close>

definition htons :: "u32 \<Rightarrow> 16 word" where
  "htons port = ucast port"

datatype sockaddr =
    Sockaddr_in "16 word"
  | Sockaddr_in6 "16 word"
  | Sockaddr_un string

text \<open>
  One constructor per call the stressor makes, with the arguments that matter; the
  three \<open>Pr_\<close> constructors are the logging macros with the text they are given.
  \<open>Timer_create\<close> holds the signal and the answer of the call, \<open>Timer_settime\<close> the
  nanoseconds of \<open>it_value\<close> and \<open>it_interval\<close> (their seconds are 0) and the answer.
\<close>

datatype event =
    Sigaction int
  | Socket int
  | Timer_create int int
  | Timer_settime nat nat int
  | Connect int sockaddr
  | Timer_delete
  | Close int
  | Usleep nat
  | Send int "u8 list"
  | Sched_yield
  | Unlink string
  | Pr_failed_err string
  | Pr_failed_dbg string
  | Pr_dbg string
  | Setsockopt int
  | Bind int sockaddr
  | Fcntl_getfl int
  | Fcntl_setfl int
  | Listen int
  | Epoll_create1
  | Epoll_ctl_add int int
  | Calloc
  | Epoll_wait int
  | Accept int
  | Recv int
  | Free
  | Fork nat
  | Kill int int
  | Waitpid int
  | Exit int

text \<open>The path \<open>"/tmp/stress-ng-%d-%" PRIu32\<close> printed from \<open>ppid\<close> and \<open>instance\<close>.\<close>

fun dec_nat :: "nat \<Rightarrow> string" where
  "dec_nat n =
     (if n < 10 then [char_of (48 + n)] else dec_nat (n div 10) @ [char_of (48 + n mod 10)])"

declare dec_nat.simps [simp del]

definition dec_int :: "int \<Rightarrow> string" where
  "dec_int i = (if i < 0 then CHR ''-'' # dec_nat (nat (- i)) else dec_nat (nat i))"

definition sun_path :: "int \<Rightarrow> u32 \<Rightarrow> string" where
  "sun_path ppid instance = ''/tmp/stress-ng-'' @ dec_int ppid @ ''-'' @ dec_nat (unat instance)"

subsection \<open>The client: \<open>epoll_client\<close>\<close>

text \<open>
  The memory the client works on: the operation counter behind the pointer \<open>counter\<close>,
  the locals \<open>port_counter\<close> and \<open>connect_timeouts\<close> that live across iterations, and
  the trace.
\<close>

record cstate =
  counter :: u64
  port_counter :: int
  connect_timeouts :: u64
  trace :: "event list"

definition emit :: "event \<Rightarrow> cstate \<Rightarrow> cstate" where
  "emit e st = st\<lparr>trace := trace st @ [e]\<rparr>"

text \<open>
  The answers of the environment during one pass from the label \<open>retry\<close>: the flag
  \<open>opt_do_run\<close> as read at line 320, the return values of \<open>socket\<close>, \<open>timer_create\<close>,
  \<open>timer_settime\<close>, \<open>connect\<close> (with \<open>errno\<close>), \<open>timer_delete\<close> and \<open>send\<close>, and the flag
  as read by the loop condition at line 433.  A pass that leaves early ignores the rest.
\<close>

record attempt =
  a_run :: bool
  a_socket :: int
  a_timer_create :: int
  a_timer_settime :: int
  a_connect :: int
  a_errno :: int
  a_timer_delete :: int
  a_send :: int
  a_run_while :: bool

text \<open>Lines 311 to 318: the port of this iteration and the round-robin step.\<close>

definition iter_begin :: "globals \<Rightarrow> u32 \<Rightarrow> cstate \<Rightarrow> u32 \<times> cstate" where
  "iter_begin g instance st =
     (client_port g (port_counter st) instance,
      st\<lparr>port_counter := next_port_counter g (port_counter st)\<rparr>)"

text \<open>
  The \<open>switch\<close> on the domain at lines 353 to 386: the address \<open>connect\<close> is called with,
  or \<open>None\<close> for the \<open>default\<close> branch, which calls nothing and returns \<open>-1\<close>.
\<close>

definition connect_addr :: "globals \<Rightarrow> string \<Rightarrow> u32 \<Rightarrow> sockaddr option" where
  "connect_addr g path port =
     (if opt_epoll_domain g = AF_INET then Some (Sockaddr_in (htons port))
      else if opt_epoll_domain g = AF_INET6 then Some (Sockaddr_in6 (htons port))
      else if opt_epoll_domain g = AF_UNIX then Some (Sockaddr_un path)
      else None)"

text \<open>The \<open>switch\<close> on \<open>errno\<close> after a failed connect, lines 396 to 407.\<close>

definition connect_failed :: "int \<Rightarrow> cstate \<Rightarrow> cstate" where
  "connect_failed e st =
     (if e = EINTR then st\<lparr>connect_timeouts := connect_timeouts st + 1\<rparr>
      else if e = ECONNREFUSED \<or> e = ENOENT then st
      else emit (Pr_dbg ''connect failed'') st)"

text \<open>The 4096 bytes \<open>memset\<close> writes into \<open>buf\<close> at line 422.\<close>

definition payload :: "u64 \<Rightarrow> u8 list" where
  "payload c = replicate 4096 (ucast (65 + c mod 26))"

text \<open>Lines 435 to 444, reached when the loop ends by \<open>break\<close> or by its condition.\<close>

definition client_exit :: "globals \<Rightarrow> string \<Rightarrow> cstate \<Rightarrow> int option \<times> cstate" where
  "client_exit g path st =
     (let st1 = (if opt_epoll_domain g = AF_UNIX then emit (Unlink path) st else st);
          st2 = (if connect_timeouts st1 \<noteq> 0 then emit (Pr_dbg ''connect timeouts'') st1 else st1)
      in (Some EXIT_SUCCESS, st2))"

text \<open>
  The body of the \<open>do\<close> loop from the label \<open>retry\<close> on.  \<open>port\<close> and \<open>retries\<close> are the
  locals of the current iteration; \<open>goto retry\<close> keeps them, a new iteration sets
  \<open>retries\<close> to 0 and computes the next port.
\<close>

fun client_retry ::
  "globals \<Rightarrow> u32 \<Rightarrow> u64 \<Rightarrow> string \<Rightarrow> u32 \<Rightarrow> int \<Rightarrow> attempt list \<Rightarrow> cstate \<Rightarrow> int option \<times> cstate"
where
  "client_retry g instance max_ops path port retries [] st = (None, st)"
| "client_retry g instance max_ops path port retries (a # as) st =
     (if \<not> a_run a then client_exit g path st
      else
        let st = emit (Socket (opt_epoll_domain g)) st; fd = a_socket a in
        if fd < 0 then (Some (- 1), emit (Pr_failed_dbg ''socket'') st)
        else
          let st = emit (Timer_create SIGRTMIN (a_timer_create a)) st in
          if a_timer_create a < 0
          then (Some (- 1), emit (Close fd) (emit (Pr_failed_err ''timer_create'') st))
          else
            let st = emit (Timer_settime 250000000 250000000 (a_timer_settime a)) st in
            if a_timer_settime a < 0
            then (Some (- 1), emit (Close fd) (emit (Pr_failed_err ''timer_settime'') st))
            else
              case connect_addr g path port of
                None \<Rightarrow> (Some (- 1), emit (Close fd) (emit (Pr_failed_err ''unknown domain'') st))
              | Some addr \<Rightarrow>
                  let st = emit (Connect fd addr) st; ret = a_connect a;
                      st = emit Timer_delete st in
                  if a_timer_delete a < 0
                  then (Some (- 1), emit (Close fd) (emit (Pr_failed_err ''timer_delete'') st))
                  else if ret < 0 then
                    let st = connect_failed (a_errno a) st;
                        st = emit (Usleep 1000) (emit (Close fd) st);
                        retries = retries + 1 in
                    if retries > 100 then (Some (- 1), emit (Pr_failed_dbg ''connect'') st)
                    else client_retry g instance max_ops path port retries as st
                  else
                    let st = emit (Send fd (payload (counter st))) st in
                    if a_send a < 0
                    then client_exit g path (emit (Pr_failed_dbg ''send'') (emit (Close fd) st))
                    else
                      let st = emit Sched_yield (emit (Close fd) st);
                          st = st\<lparr>counter := counter st + 1\<rparr> in
                      if a_run_while a \<and> (max_ops = 0 \<or> counter st < max_ops)
                      then
                        (case iter_begin g instance st of
                           (port, st) \<Rightarrow> client_retry g instance max_ops path port 0 as st)
                      else client_exit g path st)"

text \<open>
  \<open>epoll_client\<close> itself: the path, the signal handler, then the loop.  \<open>c0\<close> is the
  value behind \<open>counter\<close> on entry, \<open>sigaction_ret\<close> the answer of \<open>sigaction\<close>.
\<close>

definition client_init :: "u64 \<Rightarrow> cstate" where
  "client_init c0 = \<lparr>counter = c0, port_counter = 0, connect_timeouts = 0, trace = []\<rparr>"

definition epoll_client ::
  "globals \<Rightarrow> u64 \<Rightarrow> u32 \<Rightarrow> u64 \<Rightarrow> int \<Rightarrow> int \<Rightarrow> attempt list \<Rightarrow> int option \<times> cstate"
where
  "epoll_client g c0 instance max_ops ppid sigaction_ret atts =
     (let path = sun_path ppid instance;
          st = emit (Sigaction SIGRTMIN) (client_init c0) in
      if sigaction_ret < 0 then (Some (- 1), emit (Pr_failed_err ''sigaction'') st)
      else
        case iter_begin g instance st of
          (port, st) \<Rightarrow> client_retry g instance max_ops path port 0 atts st)"

subsection \<open>The server: \<open>epoll_server\<close> and its helpers\<close>

text \<open>
  The server threads only its trace.  \<open>epoll_set_fd_nonblock\<close> and \<open>epoll_ctl_add\<close> take
  the answers of \<open>fcntl\<close> and \<open>epoll_ctl\<close> and return \<open>-1\<close> or \<open>0\<close> as the source does.
\<close>

definition epoll_set_fd_nonblock :: "int \<Rightarrow> int \<Rightarrow> int \<Rightarrow> event list \<Rightarrow> int \<times> event list" where
  "epoll_set_fd_nonblock fd getfl setfl tr =
     (if getfl < 0 then (- 1, tr @ [Fcntl_getfl fd])
      else if setfl < 0 then (- 1, tr @ [Fcntl_getfl fd, Fcntl_setfl fd])
      else (0, tr @ [Fcntl_getfl fd, Fcntl_setfl fd]))"

definition epoll_ctl_add :: "int \<Rightarrow> int \<Rightarrow> int \<Rightarrow> event list \<Rightarrow> int \<times> event list" where
  "epoll_ctl_add efd fd ctl tr =
     (if ctl < 0 then (- 1, tr @ [Epoll_ctl_add efd fd]) else (0, tr @ [Epoll_ctl_add efd fd]))"

text \<open>
  \<open>epoll_recv_data\<close>: one pair (return value of \<open>recv\<close>, \<open>errno\<close>) per pass of its loop.
\<close>

fun epoll_recv_data :: "int \<Rightarrow> (int \<times> int) list \<Rightarrow> event list \<Rightarrow> event list option" where
  "epoll_recv_data fd [] tr = None"
| "epoll_recv_data fd ((n, e) # rs) tr =
     (let tr = tr @ [Recv fd] in
      if n = - 1 then (if e \<noteq> EAGAIN then Some (tr @ [Close fd]) else Some tr)
      else if n = 0 then Some (tr @ [Close fd])
      else epoll_recv_data fd rs tr)"

text \<open>
  \<open>epoll_notification\<close>: one record per pass of the accept loop, holding the answers of
  \<open>accept\<close> (with \<open>errno\<close>), of the two \<open>fcntl\<close> calls and of \<open>epoll_ctl\<close>.
\<close>

record accept_step =
  ac_accept :: int
  ac_errno :: int
  ac_getfl :: int
  ac_setfl :: int
  ac_ctl :: int

fun epoll_notification ::
  "int \<Rightarrow> int \<Rightarrow> accept_step list \<Rightarrow> event list \<Rightarrow> int option \<times> event list"
where
  "epoll_notification efd sfd [] tr = (None, tr)"
| "epoll_notification efd sfd (s # ss) tr =
     (let tr = tr @ [Accept sfd]; fd = ac_accept s in
      if fd < 0 then
        (if ac_errno s = EAGAIN \<or> ac_errno s = EWOULDBLOCK then (Some 0, tr)
         else if ac_errno s = EMFILE \<or> ac_errno s = ENFILE then (Some 0, tr)
         else (Some (- 1), tr @ [Pr_failed_err ''accept'']))
      else
        case epoll_set_fd_nonblock fd (ac_getfl s) (ac_setfl s) tr of
          (r, tr) \<Rightarrow>
            if r < 0
            then (Some (- 1), tr @ [Pr_failed_err ''setting socket to non-blocking'', Close fd])
            else
              case epoll_ctl_add efd fd (ac_ctl s) tr of
                (r, tr) \<Rightarrow>
                  if r < 0 then (Some (- 1), tr @ [Pr_failed_err ''epoll ctl add'', Close fd])
                  else epoll_notification efd sfd ss tr)"

text \<open>
  An event as \<open>epoll_wait\<close> reports it, with the scripts for the helper the event may
  start.  \<open>epoll_wait\<close> either fails with an \<open>errno\<close> or fills \<open>n\<close> events.
\<close>

definition EPOLLIN :: u32 where "EPOLLIN = 0x001"
definition EPOLLERR :: u32 where "EPOLLERR = 0x008"
definition EPOLLHUP :: u32 where "EPOLLHUP = 0x010"

record epoll_event =
  ev_events :: u32
  ev_fd :: int
  ev_accepts :: "accept_step list"
  ev_recvs :: "(int \<times> int) list"



text \<open>
  The \<open>for\<close> loop over the reported events, lines 578 to 600; a negative result of
  \<open>epoll_notification\<close> leaves it by \<open>break\<close>.
\<close>

fun handle_events :: "int \<Rightarrow> int \<Rightarrow> epoll_event list \<Rightarrow> event list \<Rightarrow> event list option" where
  "handle_events efd sfd [] tr = Some tr"
| "handle_events efd sfd (ev # evs) tr =
     (if and (ev_events ev) EPOLLERR \<noteq> 0 \<or> and (ev_events ev) EPOLLHUP \<noteq> 0 \<or>
         \<not> (and (ev_events ev) EPOLLIN \<noteq> 0)
      then handle_events efd sfd evs (tr @ [Close (ev_fd ev)])
      else if sfd = ev_fd ev then
        (case epoll_notification efd sfd (ev_accepts ev) tr of
           (None, tr) \<Rightarrow> None
         | (Some r, tr) \<Rightarrow> if r < 0 then Some tr else handle_events efd sfd evs tr)
      else
        (case epoll_recv_data (ev_fd ev) (ev_recvs ev) tr of
           None \<Rightarrow> None
         | Some tr \<Rightarrow> handle_events efd sfd evs tr))"


text \<open>The labels \<open>die_close\<close> and \<open>die\<close>, lines 603 to 616.\<close>

definition die :: "globals \<Rightarrow> string \<Rightarrow> int \<Rightarrow> event list \<Rightarrow> int option \<times> event list" where
  "die g path rc tr =
     (Some rc, tr @ (if opt_epoll_domain g = AF_UNIX then [Unlink path] else []) @ [Free, Exit rc])"

definition die_close ::
  "globals \<Rightarrow> string \<Rightarrow> int \<Rightarrow> int \<Rightarrow> int \<Rightarrow> event list \<Rightarrow> int option \<times> event list"
where
  "die_close g path efd sfd rc tr =
     die g path rc
       (tr @ (if efd \<noteq> - 1 then [Close efd] else []) @ (if sfd \<noteq> - 1 then [Close sfd] else []))"




subsection \<open>The orchestrator: \<open>stress_epoll\<close>\<close>

text \<open>
  What the parent process sees: the answers of \<open>getppid\<close>, of the \<open>i\<close>-th \<open>fork\<close> and of
  the \<open>i\<close>-th \<open>waitpid\<close>, and the script of the client, which runs in the parent.
  \<open>epoll_spawn\<close> returns the value of \<open>fork\<close> in the parent; the child never returns
  from it.
\<close>

record orch_env =
  o_getppid :: int
  o_fork :: "nat \<Rightarrow> int"
  o_waitpid :: "nat \<Rightarrow> int"
  o_sigaction :: int
  o_attempts :: "attempt list"

text \<open>
  The spawn loop, lines 658 to 664, over the indices \<open>0 ..< max_servers\<close>; the flag says
  whether it ran to its end (\<open>False\<close> is the \<open>goto reap\<close>).
\<close>

fun spawn_servers ::
  "(nat \<Rightarrow> int) \<Rightarrow> nat list \<Rightarrow> int list \<Rightarrow> event list \<Rightarrow> bool \<times> int list \<times> event list"
where
  "spawn_servers fork_ret [] pids tr = (True, pids, tr)"
| "spawn_servers fork_ret (i # is) pids tr =
     (let pids = pids[i := fork_ret i]; tr = tr @ [Fork i] in
      if pids ! i < 0 then (False, pids, tr @ [Pr_failed_dbg ''fork''])
      else spawn_servers fork_ret is pids tr)"

text \<open>The reap loop, lines 668 to 677.\<close>

fun reap :: "(nat \<Rightarrow> int) \<Rightarrow> nat list \<Rightarrow> int list \<Rightarrow> event list \<Rightarrow> event list" where
  "reap waitpid_ret [] pids tr = tr"
| "reap waitpid_ret (i # is) pids tr =
     (if pids ! i > 0 then
        (let tr = tr @ [Kill (pids ! i) SIGKILL, Waitpid (pids ! i)] in
         if waitpid_ret i < 0 then reap waitpid_ret is pids (tr @ [Pr_failed_dbg ''waitpid''])
         else reap waitpid_ret is pids tr)
      else reap waitpid_ret is pids tr)"

text \<open>
  \<open>stress_epoll\<close>: the value it returns, the counter and the trace of the parent.  The
  call of \<open>epoll_client\<close> at line 666 is a statement: its value is dropped, and \<open>rc\<close> is
  assigned only by its initialiser.  The array \<open>pids\<close> has \<open>MAX_SERVERS\<close> entries.
\<close>

definition stress_epoll ::
  "globals \<Rightarrow> u64 \<Rightarrow> u32 \<Rightarrow> u64 \<Rightarrow> orch_env \<Rightarrow> (int \<times> u64 \<times> event list) option"
where
  "stress_epoll g c0 instance max_ops env =
     (let ppid = o_getppid env; rc = EXIT_SUCCESS;
          tr = [Pr_dbg (if max_servers g = 1 then ''using socket port'' else ''using socket ports'')];
          pids = replicate MAX_SERVERS 0;
          servers = [0 ..< nat (max_servers g)] in
      case spawn_servers (o_fork env) servers pids tr of
        (False, pids, tr) \<Rightarrow> Some (rc, c0, reap (o_waitpid env) servers pids tr)
      | (True, pids, tr) \<Rightarrow>
          (case epoll_client g c0 instance max_ops ppid (o_sigaction env) (o_attempts env) of
             (None, st) \<Rightarrow> None
           | (Some ret, st) \<Rightarrow>
               Some (rc, counter st, reap (o_waitpid env) servers pids (tr @ trace st))))"

subsection \<open>Vocabulary for the properties\<close>

text \<open>
  The definitions below are not part of the program; the theorems are stated with them.
  \<open>valid_domain\<close> holds of the statics whenever the domain is one of the table, which
  is all \<open>stress_set_epoll_domain\<close> ever stores.
\<close>

definition valid_domain :: "globals \<Rightarrow> bool" where
  "valid_domain g \<longleftrightarrow> opt_epoll_domain g \<in> {AF_INET, AF_INET6, AF_UNIX}"

text \<open>
  An attempt whose calls succeed up to \<open>connect\<close>, which fails (\<open>connect_fails\<close>) or
  succeeds (\<open>connect_ok\<close>); in both \<open>opt_do_run\<close> is still set at the label \<open>retry\<close>.
\<close>

definition connect_fails :: "attempt \<Rightarrow> bool" where
  "connect_fails a \<longleftrightarrow>
     a_run a \<and> 0 \<le> a_socket a \<and> 0 \<le> a_timer_create a \<and> 0 \<le> a_timer_settime a \<and>
     0 \<le> a_timer_delete a \<and> a_connect a < 0"

definition connect_ok :: "attempt \<Rightarrow> bool" where
  "connect_ok a \<longleftrightarrow>
     a_run a \<and> 0 \<le> a_socket a \<and> 0 \<le> a_timer_create a \<and> 0 \<le> a_timer_settime a \<and>
     0 \<le> a_timer_delete a \<and> 0 \<le> a_connect a"

text \<open>The calls of an attempt from \<open>socket\<close> to \<open>timer_delete\<close>.\<close>

definition attempt_events :: "globals \<Rightarrow> string \<Rightarrow> u32 \<Rightarrow> attempt \<Rightarrow> event list" where
  "attempt_events g path port a =
     [Socket (opt_epoll_domain g), Timer_create SIGRTMIN (a_timer_create a),
      Timer_settime 250000000 250000000 (a_timer_settime a)] @
     (case connect_addr g path port of
        None \<Rightarrow> []
      | Some addr \<Rightarrow> [Connect (a_socket a) addr, Timer_delete])"

text \<open>The state after an attempt whose connect failed, before \<open>retries\<close> is tested.\<close>

definition failed_step :: "globals \<Rightarrow> string \<Rightarrow> u32 \<Rightarrow> attempt \<Rightarrow> cstate \<Rightarrow> cstate" where
  "failed_step g path port a st =
     emit (Usleep 1000) (emit (Close (a_socket a))
       (connect_failed (a_errno a) (st\<lparr>trace := trace st @ attempt_events g path port a\<rparr>)))"

text \<open>Projections of a trace: what was sent on which descriptor, what was connected and closed.\<close>

definition sends :: "event list \<Rightarrow> (int \<times> u8 list) list" where
  "sends tr = List.map_filter (\<lambda>e. case e of Send fd buf \<Rightarrow> Some (fd, buf) | _ \<Rightarrow> None) tr"

definition connects :: "event list \<Rightarrow> int list" where
  "connects tr = List.map_filter (\<lambda>e. case e of Connect fd addr \<Rightarrow> Some fd | _ \<Rightarrow> None) tr"

definition closes :: "event list \<Rightarrow> int list" where
  "closes tr = List.map_filter (\<lambda>e. case e of Close fd \<Rightarrow> Some fd | _ \<Rightarrow> None) tr"

definition yields :: "event list \<Rightarrow> nat" where
  "yields tr = length (filter (\<lambda>e. e = Sched_yield) tr)"


text \<open>
  The discipline of the deadline timer, as an automaton over the trace.  A timer is
  created for \<open>SIGRTMIN\<close> only when none exists, armed with 250 ms right after, the
  connect follows at once and \<open>timer_delete\<close> follows the connect at once; no other call
  comes in between, and a new attempt (\<open>socket\<close>) starts only when no timer exists.
  \<open>T_unarmed\<close> is a timer that was created and could not be armed.
\<close>

datatype timer_state = T_idle | T_created | T_armed | T_connected | T_unarmed | T_bad

definition timer_step :: "timer_state \<Rightarrow> event \<Rightarrow> timer_state" where
  "timer_step q e =
     (case e of
        Timer_create sig ret \<Rightarrow>
          if q = T_idle \<and> sig = SIGRTMIN then (if ret < 0 then T_idle else T_created) else T_bad
      | Timer_settime v iv ret \<Rightarrow>
          if q = T_created \<and> v = 250000000 \<and> iv = 250000000
          then (if ret < 0 then T_unarmed else T_armed) else T_bad
      | Connect fd addr \<Rightarrow> if q = T_armed then T_connected else T_bad
      | Timer_delete \<Rightarrow> if q = T_connected then T_idle else T_bad
      | Socket d \<Rightarrow> if q = T_idle then T_idle else T_bad
      | _ \<Rightarrow> if q = T_idle \<or> q = T_unarmed then q else T_bad)"

definition timer_run :: "timer_state \<Rightarrow> event list \<Rightarrow> timer_state" where
  "timer_run q tr = foldl timer_step q tr"

text \<open>The state after a cycle that connected, sent and closed, before the loop condition.\<close>

definition sent_step :: "globals \<Rightarrow> string \<Rightarrow> u32 \<Rightarrow> attempt \<Rightarrow> cstate \<Rightarrow> cstate" where
  "sent_step g path port a st =
     st\<lparr>trace := trace st @ attempt_events g path port a @
                   [Send (a_socket a) (payload (counter st)), Close (a_socket a), Sched_yield],
        counter := counter st + 1\<rparr>"

text \<open>A trace that keeps the discipline and leaves no timer armed.\<close>

definition timer_safe :: "event list \<Rightarrow> bool" where
  "timer_safe tr \<longleftrightarrow> timer_run T_idle tr \<in> {T_idle, T_unarmed}"


text \<open>
  An event the server's \<open>for\<close> loop passes on to a handler: no error or hangup flag,
  and the read flag set.
\<close>

definition readable :: "epoll_event \<Rightarrow> bool" where
  "readable ev \<longleftrightarrow>
     and (ev_events ev) EPOLLERR = 0 \<and> and (ev_events ev) EPOLLHUP = 0 \<and>
     and (ev_events ev) EPOLLIN \<noteq> 0"



subsection \<open>Example scripts\<close>

text \<open>
  Statics for the unix domain, an attempt whose connect is refused and an attempt in
  which every call succeeds; the concrete instances of the theorems are built from them.
\<close>

definition unix_globals :: globals where
  "unix_globals = \<lparr>opt_epoll_domain = AF_UNIX, opt_epoll_port = 6000, max_servers = 1\<rparr>"

definition refused :: attempt where
  "refused = \<lparr>a_run = True, a_socket = 5, a_timer_create = 0, a_timer_settime = 0,
     a_connect = - 1, a_errno = ECONNREFUSED, a_timer_delete = 0, a_send = 0, a_run_while = True\<rparr>"

definition served :: attempt where
  "served = \<lparr>a_run = True, a_socket = 5, a_timer_create = 0, a_timer_settime = 0,
     a_connect = 0, a_errno = 0, a_timer_delete = 0, a_send = 4096, a_run_while = True\<rparr>"

text \<open>
  For the server: an accept that fails for want of descriptors, a wait that a signal
  interrupts and a wait that times out with no event, both with \<open>opt_do_run\<close> still set.
\<close>

definition accept_emfile :: accept_step where
  "accept_emfile = \<lparr>ac_accept = - 1, ac_errno = EMFILE, ac_getfl = 0, ac_setfl = 0, ac_ctl = 0\<rparr>"



section \<open>Properties\<close>

subsection \<open>Ports (C1)\<close>










subsection \<open>The domain table (C9)\<close>

text \<open>
  C9, as stated, names the selectors ipv4, ipv6 and local.  The table has no entry
  \<open>local\<close>: the name is refused like any other unknown name.
\<close>

theorem set_domain_local_counterexample:
  "stress_set_epoll_domain ''local'' (initial_globals 6000) =
     (- 1, initial_globals 6000,
      [''socket domain must be one of:'', '' ipv4'', '' ipv6'', '' unix'', [CHR 0x0A]])"
  by (simp add: stress_set_epoll_domain_def domains_def domain_usage_def)

text \<open>
  C9, amended: the selectors are ipv4, ipv6 and unix.  Each of them is resolved to its
  address family and server count (\<open>AF_INET\<close> and 4, \<open>AF_INET6\<close> and 4, \<open>AF_UNIX\<close> and
  1) with return value 0; every other name returns \<open>-1\<close>, after the valid names have
  been written to stderr, and leaves the configured domain and server count as they were.
\<close>

theorem set_domain_registry:
  "stress_set_epoll_domain ''ipv4'' g =
     (0, g\<lparr>opt_epoll_domain := AF_INET, max_servers := 4\<rparr>, []) \<and>
   stress_set_epoll_domain ''ipv6'' g =
     (0, g\<lparr>opt_epoll_domain := AF_INET6, max_servers := 4\<rparr>, []) \<and>
   stress_set_epoll_domain ''unix'' g =
     (0, g\<lparr>opt_epoll_domain := AF_UNIX, max_servers := 1\<rparr>, []) \<and>
   (nm \<notin> {''ipv4'', ''ipv6'', ''unix''} \<longrightarrow>
      stress_set_epoll_domain nm g =
        (- 1, g, [''socket domain must be one of:'', '' ipv4'', '' ipv6'', '' unix'', [CHR 0x0A]]))"
  by (simp add: stress_set_epoll_domain_def domains_def domain_usage_def)

theorem set_domain_registry_witness:
  "''tcp'' \<notin> {''ipv4'', ''ipv6'', ''unix''} \<and>
   fst (stress_set_epoll_domain ''tcp'' (initial_globals 6000)) = - 1 \<and>
   fst (snd (stress_set_epoll_domain ''tcp'' (initial_globals 6000))) = initial_globals 6000 \<and>
   fst (stress_set_epoll_domain ''unix'' (initial_globals 6000)) = 0"
  using set_domain_registry [of "initial_globals 6000" "''tcp''"]
  by simp

subsection \<open>The client loop, one attempt at a time\<close>

lemma valid_domain_addr: "valid_domain g \<Longrightarrow> \<exists>addr. connect_addr g path port = Some addr"
  by (auto simp: valid_domain_def connect_addr_def)

lemma retry_stopped:
  "\<not> a_run a \<Longrightarrow> client_retry g i m path port r (a # as) st = client_exit g path st"
  by simp

lemma retry_failed:
  assumes "connect_fails a" "valid_domain g"
  shows "client_retry g i m path port r (a # as) st =
     (if r + 1 > 100 then (Some (- 1), emit (Pr_failed_dbg ''connect'') (failed_step g path port a st))
      else client_retry g i m path port (r + 1) as (failed_step g path port a st))"
proof -
  obtain addr where "connect_addr g path port = Some addr"
    using valid_domain_addr [OF assms(2)] by blast
  then show ?thesis using assms(1)
    by (simp add: connect_fails_def failed_step_def attempt_events_def emit_def Let_def)
qed

lemma retry_sent:
  assumes "connect_ok a" "valid_domain g" "0 \<le> a_send a"
  shows "client_retry g i m path port r (a # as) st =
     (if a_run_while a \<and> (m = 0 \<or> counter st + 1 < m)
      then client_retry g i m path (client_port g (port_counter st) i) 0 as
             ((sent_step g path port a st)\<lparr>port_counter := next_port_counter g (port_counter st)\<rparr>)
      else client_exit g path (sent_step g path port a st))"
proof -
  obtain addr where "connect_addr g path port = Some addr"
    using valid_domain_addr [OF assms(2)] by blast
  then show ?thesis using assms(1,3)
    by (auto simp add: connect_ok_def attempt_events_def emit_def Let_def iter_begin_def sent_step_def)
qed

lemma retry_send_failed:
  assumes "connect_ok a" "valid_domain g" "a_send a < 0"
  shows "client_retry g i m path port r (a # as) st =
     client_exit g path (st\<lparr>trace := trace st @ attempt_events g path port a @
                   [Send (a_socket a) (payload (counter st)), Close (a_socket a), Pr_failed_dbg ''send'']\<rparr>)"
proof -
  obtain addr where "connect_addr g path port = Some addr"
    using valid_domain_addr [OF assms(2)] by blast
  then show ?thesis using assms(1,3)
    by (simp add: connect_ok_def attempt_events_def emit_def Let_def)
qed

lemma retry_failed_run:
  assumes "valid_domain g"
  shows "\<forall>a\<in>set atts. connect_fails a \<Longrightarrow> r + int (length atts) \<le> 100 \<Longrightarrow>
    client_retry g i m path port r (atts @ rest) st =
    client_retry g i m path port (r + int (length atts)) rest (fold (failed_step g path port) atts st)"
proof (induction atts arbitrary: r st)
  case Nil
  then show ?case by simp
next
  case (Cons a atts)
  have a: "connect_fails a" using Cons.prems by simp
  have r: "\<not> r + 1 > 100" using Cons.prems by simp
  have "client_retry g i m path port r ((a # atts) @ rest) st =
        client_retry g i m path port (r + 1) (atts @ rest) (failed_step g path port a st)"
    using retry_failed [OF a assms, of i m path port r "atts @ rest" st] r by simp
  also have "\<dots> = client_retry g i m path port (r + 1 + int (length atts)) rest
        (fold (failed_step g path port) atts (failed_step g path port a st))"
    using Cons.prems by (intro Cons.IH) simp_all
  finally show ?case by (simp add: add.assoc)
qed

lemma sends_append [simp]: "sends (xs @ ys) = sends xs @ sends ys"
  by (simp add: sends_def List.map_filter_def)
lemma connects_append [simp]: "connects (xs @ ys) = connects xs @ connects ys"
  by (simp add: connects_def List.map_filter_def)
lemma closes_append [simp]: "closes (xs @ ys) = closes xs @ closes ys"
  by (simp add: closes_def List.map_filter_def)
lemma yields_append [simp]: "yields (xs @ ys) = yields xs + yields ys"
  by (simp add: yields_def)

lemma attempt_events_proj:
  assumes "valid_domain g"
  shows "sends (attempt_events g path port a) = []"
    and "connects (attempt_events g path port a) = [a_socket a]"
    and "closes (attempt_events g path port a) = []"
    and "yields (attempt_events g path port a) = 0"
proof -
  obtain addr where "connect_addr g path port = Some addr"
    using valid_domain_addr [OF assms] by blast
  then show "sends (attempt_events g path port a) = []"
    and "connects (attempt_events g path port a) = [a_socket a]"
    and "closes (attempt_events g path port a) = []"
    and "yields (attempt_events g path port a) = 0"
    by (simp_all add: attempt_events_def sends_def connects_def closes_def yields_def List.map_filter_def)
qed

lemma failed_step_proj:
  assumes "valid_domain g"
  shows "sends (trace (failed_step g path port a st)) = sends (trace st)"
    and "connects (trace (failed_step g path port a st)) = connects (trace st) @ [a_socket a]"
    and "closes (trace (failed_step g path port a st)) = closes (trace st) @ [a_socket a]"
    and "yields (trace (failed_step g path port a st)) = yields (trace st)"
    and "counter (failed_step g path port a st) = counter st"
  using attempt_events_proj [OF assms, of path port a]
  by (simp_all add: failed_step_def emit_def connect_failed_def)
     (simp_all add: sends_def connects_def closes_def yields_def List.map_filter_def)

lemma fold_failed_proj:
  assumes "valid_domain g"
  shows "sends (trace (fold (failed_step g path port) atts st)) = sends (trace st)
    \<and> connects (trace (fold (failed_step g path port) atts st)) = connects (trace st) @ map a_socket atts
    \<and> closes (trace (fold (failed_step g path port) atts st)) = closes (trace st) @ map a_socket atts
    \<and> yields (trace (fold (failed_step g path port) atts st)) = yields (trace st)
    \<and> counter (fold (failed_step g path port) atts st) = counter st"
  by (induction atts arbitrary: st) (simp_all add: failed_step_proj [OF assms])


lemma failed_only:
  assumes "valid_domain g" "\<forall>a\<in>set atts. connect_fails a"
  shows "client_retry g i m path port 0 atts st =
     (if length atts \<le> 100 then (None, fold (failed_step g path port) atts st)
      else (Some (- 1), emit (Pr_failed_dbg ''connect'')
              (fold (failed_step g path port) (take 101 atts) st)))"
proof (cases "length atts \<le> 100")
  case True
  then show ?thesis
    using retry_failed_run [OF assms(1), of atts 0 i m path port "[]" st] assms(2) by simp
next
  case False
  define pre where "pre = take 100 atts"
  define a where "a = atts ! 100"
  define post where "post = drop 101 atts"
  have split: "atts = pre @ a # post"
    using id_take_nth_drop [of 100 atts] False by (simp add: pre_def a_def post_def)
  have len: "length pre = 100" using False by (simp add: pre_def)
  have pre: "\<forall>x\<in>set pre. connect_fails x" using assms(2) split by (metis Un_iff set_append)
  have a: "connect_fails a" using assms(2) split by (metis in_set_conv_decomp)
  have t: "take 101 atts = pre @ [a]" using split len by simp
  have "client_retry g i m path port 0 (pre @ a # post) st =
        client_retry g i m path port 100 (a # post) (fold (failed_step g path port) pre st)"
    using retry_failed_run [OF assms(1) pre, of 0 i m path port "a # post" st] len by simp
  also have "\<dots> = (Some (- 1), emit (Pr_failed_dbg ''connect'')
        (failed_step g path port a (fold (failed_step g path port) pre st)))"
    using retry_failed [OF a assms(1)] by simp
  finally show ?thesis using False split t by simp
qed


lemma yields_simps [simp]:
  "yields [] = 0"
  "yields (e # es) = (if e = Sched_yield then 1 else 0) + yields es"
  by (simp_all add: yields_def)

lemma trace_emit [simp]: "trace (emit e st) = trace st @ [e]"
  and counter_emit [simp]: "counter (emit e st) = counter st"
  and port_counter_emit [simp]: "port_counter (emit e st) = port_counter st"
  and timeouts_emit [simp]: "connect_timeouts (emit e st) = connect_timeouts st"
  by (simp_all add: emit_def)

lemma connect_failed_simps [simp]:
  "counter (connect_failed e st) = counter st"
  "port_counter (connect_failed e st) = port_counter st"
  "trace (connect_failed e st) =
     trace st @ (if e = EINTR \<or> e = ECONNREFUSED \<or> e = ENOENT then [] else [Pr_dbg ''connect failed''])"
  by (simp_all add: connect_failed_def)

lemma client_exit_simps:
  "fst (client_exit g path st) = Some EXIT_SUCCESS"
  "counter (snd (client_exit g path st)) = counter st"
  "trace (snd (client_exit g path st)) =
     trace st @ (if opt_epoll_domain g = AF_UNIX then [Unlink path] else []) @
       (if connect_timeouts st \<noteq> 0 then [Pr_dbg ''connect timeouts''] else [])"
  by (simp_all add: client_exit_def Let_def)


lemma timer_run_simps [simp]:
  "timer_run q [] = q"
  "timer_run q (e # es) = timer_run (timer_step q e) es"
  "timer_run q (xs @ ys) = timer_run (timer_run q xs) ys"
  by (simp_all add: timer_run_def)


lemma timer_step_other [simp]:
  "timer_step T_idle (Socket d) = T_idle"
  "timer_step T_idle (Close fd) = T_idle"
  "timer_step T_idle (Usleep n) = T_idle"
  "timer_step T_idle (Send fd buf) = T_idle"
  "timer_step T_idle Sched_yield = T_idle"
  "timer_step T_idle (Unlink p) = T_idle"
  "timer_step T_idle (Pr_failed_err x) = T_idle"
  "timer_step T_idle (Pr_failed_dbg x) = T_idle"
  "timer_step T_idle (Pr_dbg x) = T_idle"
  "timer_step T_idle (Sigaction sg) = T_idle"
  "timer_step T_unarmed (Close fd) = T_unarmed"
  "timer_step T_unarmed (Pr_failed_err x) = T_unarmed"
  by (simp_all add: timer_step_def)














lemma valid_unix: "valid_domain unix_globals"
  by (simp add: valid_domain_def unix_globals_def)

lemma refused_fails: "connect_fails refused"
  by (simp add: connect_fails_def refused_def)

lemma served_ok: "connect_ok served" "0 \<le> a_send served" "a_run_while served"
  by (simp_all add: connect_ok_def served_def)

lemma proj_simps [simp]:
  "connects [Pr_failed_dbg x] = []" "closes [Pr_failed_dbg x] = []" "sends [Pr_failed_dbg x] = []"
  "connects [Sigaction sg] = []" "closes [Sigaction sg] = []" "sends [Sigaction sg] = []"
  "connects [] = []" "closes [] = []" "sends [] = []"
  by (simp_all add: sends_def connects_def closes_def List.map_filter_def)

subsection \<open>Successful cycles (C6)\<close>



subsection \<open>The retry bound (C4)\<close>

text \<open>
  C4.  In a run of attempts whose connect fails (whatever the error number, the three
  transient ones included) while the other calls succeed and \<open>opt_do_run\<close> stays set,
  the client closes each failed descriptor and tries again; it returns \<open>-1\<close> exactly
  when the script holds more than 100 such attempts, and then right after the 101st
  (after at most 100 failures the script ends with the client still retrying, which is
  the result \<open>None\<close>).  The operation counter does not move.  A successful cycle
  resets the count: after it, the outcome depends only on the failures that follow.
\<close>

theorem connect_retry_bound:
  assumes "valid_domain g" and "\<forall>a\<in>set atts. connect_fails a"
  shows "fst (client_retry g i m path port 0 atts st) =
      (if length atts \<le> 100 then None else Some (- 1)) \<and>
    connects (trace (snd (client_retry g i m path port 0 atts st))) =
      connects (trace st) @ map a_socket (take 101 atts) \<and>
    closes (trace (snd (client_retry g i m path port 0 atts st))) =
      closes (trace st) @ map a_socket (take 101 atts) \<and>
    counter (snd (client_retry g i m path port 0 atts st)) = counter st \<and>
    (\<forall>s rest. connect_ok s \<and> 0 \<le> a_send s \<and> a_run_while s \<and> (m = 0 \<or> counter st + 1 < m) \<and>
        length atts \<le> 100 \<and> (\<forall>a\<in>set rest. connect_fails a) \<longrightarrow>
        fst (client_retry g i m path port 0 (atts @ s # rest) st) =
          (if length rest \<le> 100 then None else Some (- 1)))"
proof -
  note only = failed_only [OF assms, of i m path port st]
  note proj = fold_failed_proj [OF assms(1), of path port]
  have tk: "length atts \<le> 100 \<Longrightarrow> take 101 atts = atts" by simp
  have p1: "fst (client_retry g i m path port 0 atts st) =
      (if length atts \<le> 100 then None else Some (- 1))"
    by (simp add: only)
  have p2: "connects (trace (snd (client_retry g i m path port 0 atts st))) =
      connects (trace st) @ map a_socket (take 101 atts)"
    by (simp add: only proj tk)
  have p3: "closes (trace (snd (client_retry g i m path port 0 atts st))) =
      closes (trace st) @ map a_socket (take 101 atts)"
    by (simp add: only proj tk)
  have p4: "counter (snd (client_retry g i m path port 0 atts st)) = counter st"
    by (simp add: only proj)
  have p5: "fst (client_retry g i m path port 0 (atts @ s # rest) st) =
          (if length rest \<le> 100 then None else Some (- 1))"
    if s: "connect_ok s" "0 \<le> a_send s" "a_run_while s" "m = 0 \<or> counter st + 1 < m"
      and len: "length atts \<le> 100" and rest: "\<forall>a\<in>set rest. connect_fails a" for s rest
  proof -
    define st1 where "st1 = fold (failed_step g path port) atts st"
    have c1: "counter st1 = counter st" by (simp add: st1_def proj)
    have "client_retry g i m path port 0 (atts @ s # rest) st =
          client_retry g i m path port (int (length atts)) (s # rest) st1"
      using retry_failed_run [OF assms, of 0 i m path port "s # rest" st] len
      by (simp add: st1_def)
    also have "\<dots> = client_retry g i m path (client_port g (port_counter st1) i) 0 rest
          ((sent_step g path port s st1)\<lparr>port_counter := next_port_counter g (port_counter st1)\<rparr>)"
      using retry_sent [OF s(1) assms(1) s(2), of i m path port "int (length atts)" rest st1] s(3,4)
      by (simp add: c1)
    finally show ?thesis
      by (simp add: failed_only [OF assms(1) rest])
  qed
  from p1 p2 p3 p4 p5 show ?thesis by blast
qed

theorem connect_retry_bound_witness:
  "fst (client_retry unix_globals 0 0 ''/tmp/s'' 6000 0 (replicate 100 refused) (client_init 0)) = None \<and>
   fst (client_retry unix_globals 0 0 ''/tmp/s'' 6000 0 (replicate 101 refused) (client_init 0)) = Some (- 1) \<and>
   closes (trace (snd (client_retry unix_globals 0 0 ''/tmp/s'' 6000 0 (replicate 101 refused) (client_init 0))))
     = replicate 101 5 \<and>
   fst (client_retry unix_globals 0 0 ''/tmp/s'' 6000 0
         (replicate 100 refused @ served # replicate 100 refused) (client_init 0)) = None"
proof -
  have h: "\<forall>a\<in>set (replicate n refused). connect_fails a" for n
    by (simp add: refused_fails)
  have s: "a_socket refused = 5" by (simp add: refused_def)
  from connect_retry_bound [OF valid_unix h, of 0 0 "''/tmp/s''" 6000 100 "client_init 0"]
  have a: "fst (client_retry unix_globals 0 0 ''/tmp/s'' 6000 0 (replicate 100 refused) (client_init 0)) = None"
    and c: "fst (client_retry unix_globals 0 0 ''/tmp/s'' 6000 0
         (replicate 100 refused @ served # replicate 100 refused) (client_init 0)) = None"
    using served_ok h [of 100] by auto
  from connect_retry_bound [OF valid_unix h, of 0 0 "''/tmp/s''" 6000 101 "client_init 0"]
  have b: "fst (client_retry unix_globals 0 0 ''/tmp/s'' 6000 0 (replicate 101 refused) (client_init 0)) = Some (- 1)"
    and d: "closes (trace (snd (client_retry unix_globals 0 0 ''/tmp/s'' 6000 0 (replicate 101 refused) (client_init 0))))
     = replicate 101 5"
    by (simp_all add: s client_init_def)
  from a b c d show ?thesis by blast
qed

subsection \<open>The deadline timer (C7)\<close>

text \<open>The domain is always one of the table: it starts as \<open>AF_UNIX\<close> and only
  \<open>stress_set_epoll_domain\<close> assigns it.\<close>

lemma valid_domain_initial: "valid_domain (initial_globals p)"
  by (simp add: valid_domain_def initial_globals_def)

lemma valid_domain_set:
  "valid_domain g \<Longrightarrow> valid_domain (fst (snd (stress_set_epoll_domain nm g)))"
  by (simp add: stress_set_epoll_domain_def domains_def valid_domain_def)



text \<open>
  The discipline is not vacuous: a trace that closes the descriptor before deleting
  the timer breaks it, and so does the \<open>default\<close> branch of the domain switch, which
  no domain of the table reaches.
\<close>

lemma leaked_timer_not_safe:
  "\<not> timer_safe [Socket AF_UNIX, Timer_create SIGRTMIN 0, Timer_settime 250000000 250000000 0,
     Connect 5 (Sockaddr_un ''/tmp/s''), Close 5]"
  by (simp add: timer_safe_def timer_step_def)

lemma unknown_domain_leaks_timer:
  "\<not> timer_safe (trace (snd (epoll_client \<lparr>opt_epoll_domain = 99, opt_epoll_port = 6000, max_servers = 1\<rparr>
      0 0 1 1234 0 [served])))"
  by (simp add: epoll_client_def Let_def client_init_def iter_begin_def connect_addr_def served_def
      timer_safe_def timer_step_def AF_INET_def AF_INET6_def AF_UNIX_def)

subsection \<open>A failed send (C10)\<close>

text \<open>
  C10.  When the connect succeeds and the send fails, the client closes the
  descriptor, logs the failure, leaves the loop without incrementing the counter, runs
  the exit code (the unlink for the unix domain) and returns \<open>EXIT_SUCCESS\<close>.
\<close>

theorem send_failure_returns_success:
  assumes "valid_domain g" and "connect_ok a" and "a_send a < 0"
  shows "fst (client_retry g i m path port r (a # as) st) = Some EXIT_SUCCESS \<and>
    counter (snd (client_retry g i m path port r (a # as) st)) = counter st \<and>
    trace (snd (client_retry g i m path port r (a # as) st)) =
      trace st @ attempt_events g path port a @
      [Send (a_socket a) (payload (counter st)), Close (a_socket a), Pr_failed_dbg ''send''] @
      (if opt_epoll_domain g = AF_UNIX then [Unlink path] else []) @
      (if connect_timeouts st \<noteq> 0 then [Pr_dbg ''connect timeouts''] else [])"
  by (simp add: retry_send_failed [OF assms(2,1,3)] client_exit_simps del: client_retry.simps)

theorem send_failure_returns_success_witness:
  "fst (client_retry unix_globals 0 0 ''/tmp/s'' 6000 0 [served\<lparr>a_send := - 1\<rparr>] (client_init 7))
     = Some EXIT_SUCCESS \<and>
   counter (snd (client_retry unix_globals 0 0 ''/tmp/s'' 6000 0 [served\<lparr>a_send := - 1\<rparr>]
     (client_init 7))) = 7 \<and>
   trace (snd (client_retry unix_globals 0 0 ''/tmp/s'' 6000 0 [served\<lparr>a_send := - 1\<rparr>]
     (client_init 7))) =
     [Socket AF_UNIX, Timer_create SIGRTMIN 0, Timer_settime 250000000 250000000 0,
      Connect 5 (Sockaddr_un ''/tmp/s''), Timer_delete, Send 5 (payload 7), Close 5,
      Pr_failed_dbg ''send'', Unlink ''/tmp/s'']"
proof -
  have ok: "connect_ok (served\<lparr>a_send := - 1\<rparr>)" and neg: "a_send (served\<lparr>a_send := - 1\<rparr>) < 0"
    by (simp_all add: connect_ok_def served_def)
  have ev: "attempt_events unix_globals ''/tmp/s'' 6000 (served\<lparr>a_send := - 1\<rparr>) =
     [Socket AF_UNIX, Timer_create SIGRTMIN 0, Timer_settime 250000000 250000000 0,
      Connect 5 (Sockaddr_un ''/tmp/s''), Timer_delete]"
    by (simp add: attempt_events_def connect_addr_def unix_globals_def served_def
        AF_UNIX_def AF_INET_def AF_INET6_def)
  have s: "a_socket (served\<lparr>a_send := - 1\<rparr>) = 5" by (simp add: served_def)
  have g: "opt_epoll_domain unix_globals = AF_UNIX" by (simp add: unix_globals_def)
  show ?thesis
    using send_failure_returns_success [OF valid_unix ok neg, of 0 0 "''/tmp/s''" 6000 0 "[]"
        "client_init 7"]
    unfolding ev s g by (simp add: client_init_def del: client_retry.simps)
qed

subsection \<open>Cleanup of the socket path in the client (C5)\<close>

lemma sun_path_example: "sun_path 1234 0 = ''/tmp/stress-ng-1234-0''"
  by code_simp

text \<open>
  C5 asks for the unlink on every exit of the client.  The code unlinks only below the
  loop: every \<open>return -1\<close> inside the loop leaves without it.  With the unix domain,
  a client whose first \<open>socket\<close> call fails returns \<open>-1\<close> having called neither
  \<open>unlink\<close> nor anything else after the log, whereas the client that finds \<open>opt_do_run\<close>
  cleared unlinks the path.
\<close>

theorem client_failure_skips_unlink:
  "epoll_client unix_globals 0 0 0 1234 0 [refused\<lparr>a_socket := - 1\<rparr>] =
     (Some (- 1), \<lparr>counter = 0, port_counter = 0, connect_timeouts = 0,
        trace = [Sigaction SIGRTMIN, Socket AF_UNIX, Pr_failed_dbg ''socket'']\<rparr>) \<and>
   epoll_client unix_globals 0 0 0 1234 0 [refused\<lparr>a_run := False\<rparr>] =
     (Some EXIT_SUCCESS, \<lparr>counter = 0, port_counter = 0, connect_timeouts = 0,
        trace = [Sigaction SIGRTMIN, Unlink ''/tmp/stress-ng-1234-0'']\<rparr>)"
  by (simp add: epoll_client_def Let_def client_init_def iter_begin_def emit_def client_exit_def
      next_port_counter_def unix_globals_def refused_def sun_path_example
      signed_modulo_int_def)

subsection \<open>The status of the stressor (C2)\<close>

text \<open>
  C2 asks \<open>stress_epoll\<close> to return the client's failure.  The code calls
  \<open>epoll_client\<close> as a statement and returns \<open>rc\<close>, which is never assigned after its
  initialiser: when 101 connects in a row are refused the client returns \<open>-1\<close> and
  \<open>stress_epoll\<close> returns \<open>EXIT_SUCCESS\<close>.
\<close>

theorem stress_epoll_drops_client_failure:
  "fst (epoll_client unix_globals 0 0 0 1234 0 (replicate 101 refused)) = Some (- 1) \<and>
   map_option fst (stress_epoll unix_globals 0 0 0
     \<lparr>o_getppid = 1234, o_fork = (\<lambda>i. 4321), o_waitpid = (\<lambda>i. 0), o_sigaction = 0,
      o_attempts = replicate 101 refused\<rparr>) = Some EXIT_SUCCESS"
proof -
  have h: "\<forall>a\<in>set (replicate 101 refused). connect_fails a"
    by (simp add: refused_fails)
  define st where "st = (emit (Sigaction SIGRTMIN) (client_init 0))\<lparr>port_counter := next_port_counter unix_globals 0\<rparr>"
  have e: "epoll_client unix_globals 0 0 0 1234 0 (replicate 101 refused) =
      client_retry unix_globals 0 0 (sun_path 1234 0) (client_port unix_globals 0 0) 0
        (replicate 101 refused) st"
    by (simp add: epoll_client_def Let_def iter_begin_def st_def client_init_def)
  have c: "fst (epoll_client unix_globals 0 0 0 1234 0 (replicate 101 refused)) = Some (- 1)"
    unfolding e by (simp add: failed_only [OF valid_unix h])
  then obtain st' where r: "epoll_client unix_globals 0 0 0 1234 0 (replicate 101 refused) = (Some (- 1), st')"
    by (metis prod.collapse)
  have m: "max_servers unix_globals = 1" by (simp add: unix_globals_def)
  have "map_option fst (stress_epoll unix_globals 0 0 0
     \<lparr>o_getppid = 1234, o_fork = (\<lambda>i. 4321), o_waitpid = (\<lambda>i. 0), o_sigaction = 0,
      o_attempts = replicate 101 refused\<rparr>) = Some EXIT_SUCCESS"
    by (simp add: stress_epoll_def Let_def m r MAX_SERVERS_def)
  with c show ?thesis by simp
qed

subsection \<open>Accept failures (C8)\<close>

text \<open>
  C8, as stated, has the exhaustion of descriptors logged.  The code returns 0 on
  \<open>EMFILE\<close> and \<open>ENFILE\<close> without a log call: the trace of the pass holds the accept
  and nothing else.
\<close>

theorem accept_emfile_silent_counterexample:
  "epoll_notification 4 3 [accept_emfile] [] = (Some 0, [Accept 3])"
  by (simp add: accept_emfile_def EMFILE_def EAGAIN_def EWOULDBLOCK_def)

text \<open>
  C8, amended.  A failed accept ends the accept loop: with \<open>EAGAIN\<close>, \<open>EWOULDBLOCK\<close>,
  \<open>EMFILE\<close> or \<open>ENFILE\<close> the result is 0 and nothing is logged, and the server goes on
  with the next event of the pass; with any other error the failure is logged, the
  result is \<open>-1\<close> and the server leaves the pass over the events.
\<close>

theorem accept_failures:
  assumes "ac_accept s < 0"
  shows "epoll_notification efd sfd (s # ss) tr =
      (if ac_errno s \<in> {EAGAIN, EWOULDBLOCK, EMFILE, ENFILE} then (Some 0, tr @ [Accept sfd])
       else (Some (- 1), tr @ [Accept sfd, Pr_failed_err ''accept''])) \<and>
    (readable ev \<and> ev_fd ev = sfd \<and> ev_accepts ev = s # ss \<longrightarrow>
       handle_events efd sfd (ev # evs) tr =
         (if ac_errno s \<in> {EAGAIN, EWOULDBLOCK, EMFILE, ENFILE}
          then handle_events efd sfd evs (tr @ [Accept sfd])
          else Some (tr @ [Accept sfd, Pr_failed_err ''accept''])))"
  using assms by (auto simp add: Let_def readable_def)

theorem accept_failures_witness:
  "epoll_notification 4 3 [accept_emfile\<lparr>ac_errno := 13\<rparr>] [] =
     (Some (- 1), [Accept 3, Pr_failed_err ''accept'']) \<and>
   handle_events 4 3
     [\<lparr>ev_events = EPOLLIN, ev_fd = 3, ev_accepts = [accept_emfile\<lparr>ac_errno := 13\<rparr>], ev_recvs = []\<rparr>,
      \<lparr>ev_events = EPOLLHUP, ev_fd = 9, ev_accepts = [], ev_recvs = []\<rparr>] [] =
     Some [Accept 3, Pr_failed_err ''accept''] \<and>
   handle_events 4 3
     [\<lparr>ev_events = EPOLLIN, ev_fd = 3, ev_accepts = [accept_emfile], ev_recvs = []\<rparr>,
      \<lparr>ev_events = EPOLLHUP, ev_fd = 9, ev_accepts = [], ev_recvs = []\<rparr>] [] =
     Some [Accept 3, Close 9]"
proof -
  have n: "ac_accept (accept_emfile\<lparr>ac_errno := 13\<rparr>) < 0" "ac_accept accept_emfile < 0"
    by (simp_all add: accept_emfile_def)
  have r: "readable \<lparr>ev_events = EPOLLIN, ev_fd = 3, ev_accepts = x, ev_recvs = []\<rparr>" for x
    by (simp add: readable_def EPOLLIN_def EPOLLERR_def EPOLLHUP_def)
  have h: "handle_events 4 3 [\<lparr>ev_events = EPOLLHUP, ev_fd = 9, ev_accepts = [], ev_recvs = []\<rparr>]
      [Accept 3] = Some [Accept 3, Close 9]"
    by (simp add: EPOLLIN_def EPOLLERR_def EPOLLHUP_def)
  show ?thesis
    using accept_failures [OF n(1), of 4 3 "[]" "[]"
        "\<lparr>ev_events = EPOLLIN, ev_fd = 3, ev_accepts = [accept_emfile\<lparr>ac_errno := 13\<rparr>], ev_recvs = []\<rparr>"
        "[\<lparr>ev_events = EPOLLHUP, ev_fd = 9, ev_accepts = [], ev_recvs = []\<rparr>]"]
      accept_failures [OF n(2), of 4 3 "[]" "[]"
        "\<lparr>ev_events = EPOLLIN, ev_fd = 3, ev_accepts = [accept_emfile], ev_recvs = []\<rparr>"
        "[\<lparr>ev_events = EPOLLHUP, ev_fd = 9, ev_accepts = [], ev_recvs = []\<rparr>]"]
      r h
    by (simp add: accept_emfile_def EMFILE_def EAGAIN_def EWOULDBLOCK_def ENFILE_def
        del: handle_events.simps epoll_notification.simps)
qed

subsection \<open>A failed wait (C3)\<close>



lemma die_close_status [simp]: "fst (die_close g path efd sfd rc tr) = Some rc"
  by (simp add: die_close_def die_def)





end
